theory Spec2Isabelle
  imports Complex_Main "HOL-Library.AList" "HOL-Library.Multiset" "HOL-Library.FuncSet"
begin

section \<open>Data model of the game engine (class ScrabbleGame)\<close>

text \<open>
  A tile is the object literal pushed by \<^verbatim>\<open>createTileBag\<close>; the letter is a
  one-character JavaScript string, the blank tile has the letter \<^verbatim>\<open>' '\<close>.
\<close>

record tile =
  letter :: string
  points :: int
  isBlank :: bool

text \<open>The player objects pushed by \<^verbatim>\<open>initializeGame\<close>.\<close>

record player =
  player_id :: nat
  name :: string
  score :: int
  rack :: "tile list"

text \<open>One entry of the multiplier object: \<^verbatim>\<open>{ type: 'tripleWord', applied: false }\<close>.\<close>

record multiplier =
  mtype :: string
  applied :: bool

text \<open>
  \<^verbatim>\<open>currentPlayerIndex\<close> is a JavaScript number. It starts at 0 and is only ever
  assigned \<^verbatim>\<open>(currentPlayerIndex + 1) % players.length\<close>, which is a natural number
  when there is a player and \<^verbatim>\<open>NaN\<close> when the roster is empty.
\<close>

datatype index = Idx nat | NaN

text \<open>The only exception the engine can raise: a property read on \<^verbatim>\<open>undefined\<close>.\<close>

datatype error = TypeError

text \<open>
  The object returned by \<^verbatim>\<open>submitWord\<close>: \<^verbatim>\<open>{valid, message}\<close> or
  \<^verbatim>\<open>{valid, score}\<close>; a key that the literal does not have is \<open>None\<close>.
\<close>

record result =
  valid :: bool
  score_res :: "int option"
  message :: "string option"

text \<open>
  The fields of \<^verbatim>\<open>this\<close>. A board cell is \<^verbatim>\<open>null\<close> (\<open>None\<close>) or a tile; a
  JavaScript object with string keys is an association list in insertion order.
\<close>

record game =
  letterValues :: "(string \<times> int) list"
  board :: "tile option list list"
  players :: "player list"
  currentPlayerIndex :: index
  selectedTiles :: "nat list"
  gameOver :: bool
  tileBag :: "tile list"
  squareMultipliers :: "(string \<times> multiplier) list"

section \<open>Construction\<close>

definition newGame :: game where
  "newGame =
     \<lparr> letterValues =
         [(''A'', 1), (''E'', 1), (''I'', 1), (''L'', 1), (''N'', 1), (''O'', 1), (''R'', 1),
          (''S'', 1), (''T'', 1), (''U'', 1),
          (''D'', 2), (''G'', 2),
          (''B'', 3), (''C'', 3), (''M'', 3), (''P'', 3),
          (''F'', 4), (''H'', 4), (''V'', 4), (''W'', 4), (''Y'', 4),
          (''K'', 5),
          (''J'', 8), (''X'', 8),
          (''Q'', 10), (''Z'', 10),
          ('' '', 0)],
       board = [],
       players = [],
       currentPlayerIndex = Idx 0,
       selectedTiles = [],
       gameOver = False,
       tileBag = [],
       squareMultipliers = [] \<rparr>"

text \<open>\<^verbatim>\<open>createBoard\<close>: fifteen rows of fifteen \<^verbatim>\<open>null\<close> cells.\<close>

definition createBoard :: "tile option list list" where
  "createBoard = map (\<lambda>i. map (\<lambda>j. None) [0..<15]) [0..<15]"

text \<open>A number inside a template literal: its decimal digits.\<close>

fun showNum :: "nat \<Rightarrow> string" where
  "showNum n =
     (if n < 10 then [''0123456789'' ! n]
      else showNum (n div 10) @ [''0123456789'' ! (n mod 10)])"

declare showNum.simps [simp del]

definition tripleWordSquares :: "(nat \<times> nat) list" where
  "tripleWordSquares =
     [(0, 0), (0, 7), (0, 14),
      (7, 0), (7, 14),
      (14, 0), (14, 7), (14, 14)]"

definition doubleWordSquares :: "(nat \<times> nat) list" where
  "doubleWordSquares =
     [(1, 1), (2, 2), (3, 3), (4, 4),
      (1, 13), (2, 12), (3, 11), (4, 10),
      (10, 4), (11, 3), (12, 2), (13, 1),
      (10, 10), (11, 11), (12, 12), (13, 13)]"

definition tripleLetterSquares :: "(nat \<times> nat) list" where
  "tripleLetterSquares =
     [(1, 5), (1, 9),
      (5, 1), (5, 5), (5, 9), (5, 13),
      (9, 1), (9, 5), (9, 9), (9, 13),
      (13, 5), (13, 9)]"

definition doubleLetterSquares :: "(nat \<times> nat) list" where
  "doubleLetterSquares =
     [(0, 3), (0, 11),
      (2, 6), (2, 8),
      (3, 0), (3, 7), (3, 14),
      (6, 2), (6, 6), (6, 8), (6, 12),
      (7, 3), (7, 11),
      (8, 2), (8, 6), (8, 8), (8, 12),
      (11, 0), (11, 7), (11, 14),
      (12, 6), (12, 8),
      (14, 3), (14, 11)]"

text \<open>The key \<^verbatim>\<open>`${pos[0]},${pos[1]}`\<close>.\<close>

definition squareKey :: "nat \<times> nat \<Rightarrow> string" where
  "squareKey pos = showNum (fst pos) @ '','' @ showNum (snd pos)"

text \<open>
  One \<^verbatim>\<open>forEach\<close> of \<^verbatim>\<open>createSquareMultipliers\<close>: the assignment
  \<^verbatim>\<open>multipliers[key] = {...}\<close> replaces the value of a key that is present and
  appends a new key otherwise.
\<close>

definition markSquares ::
  "string \<Rightarrow> (nat \<times> nat) list \<Rightarrow> (string \<times> multiplier) list \<Rightarrow> (string \<times> multiplier) list"
where
  "markSquares ty squares multipliers =
     fold (\<lambda>pos m. AList.update (squareKey pos) \<lparr> mtype = ty, applied = False \<rparr> m)
       squares multipliers"

definition createSquareMultipliers :: "(string \<times> multiplier) list" where
  "createSquareMultipliers =
     markSquares ''doubleLetter'' doubleLetterSquares
       (markSquares ''tripleLetter'' tripleLetterSquares
         (markSquares ''doubleWord'' doubleWordSquares
           (markSquares ''tripleWord'' tripleWordSquares [])))"

text \<open>The table \<^verbatim>\<open>tileDistribution\<close> of \<^verbatim>\<open>createTileBag\<close>: letter, count, points.\<close>

definition tileDistribution :: "(string \<times> nat \<times> int) list" where
  "tileDistribution =
     [('' '', 2, 0),
      (''A'', 9, 1), (''B'', 2, 3), (''C'', 2, 3), (''D'', 4, 2), (''E'', 12, 1),
      (''F'', 2, 4), (''G'', 3, 2), (''H'', 2, 4), (''I'', 9, 1), (''J'', 1, 8),
      (''K'', 1, 5), (''L'', 4, 1), (''M'', 2, 3), (''N'', 6, 1), (''O'', 8, 1),
      (''P'', 2, 3), (''Q'', 1, 10), (''R'', 6, 1), (''S'', 4, 1), (''T'', 6, 1),
      (''U'', 4, 1), (''V'', 2, 4), (''W'', 2, 4), (''X'', 1, 8), (''Y'', 2, 4),
      (''Z'', 1, 10)]"

text \<open>The bag before the shuffle: for each table row, \<^verbatim>\<open>count\<close> pushes of the tile.\<close>

definition unshuffledBag :: "tile list" where
  "unshuffledBag =
     concat (map (\<lambda>(l, count', p).
                replicate count' \<lparr> letter = l, points = p, isBlank = (l = '' '') \<rparr>)
             tileDistribution)"

text \<open>
  \<^verbatim>\<open>[array[i], array[j]] = [array[j], array[i]]\<close>. The model is the source's for
  \<open>i\<close> and \<open>j\<close> inside the array, the only case that arises: \<open>j \<le> i < length array\<close>.
\<close>

definition swap :: "'a list \<Rightarrow> nat \<Rightarrow> nat \<Rightarrow> 'a list" where
  "swap array i j = (array[i := array ! j])[j := array ! i]"

text \<open>
  \<^verbatim>\<open>Math.floor(Math.random() * (i + 1))\<close>, where \<open>r\<close> is the value returned by
  \<^verbatim>\<open>Math.random()\<close>, a number with \<open>0 \<le> r < 1\<close>. The product is the exact one of
  the reals; the rounding of the floating-point product is not modelled.
\<close>

definition randomIndex :: "real \<Rightarrow> nat \<Rightarrow> nat" where
  "randomIndex r i = nat \<lfloor>r * real (i + 1)\<rfloor>"

text \<open>
  The random source of a shuffle: \<open>rnd i\<close> is the value \<^verbatim>\<open>Math.random()\<close> returns in
  the iteration whose loop variable is \<open>i\<close>.
\<close>

definition unitRandom :: "(nat \<Rightarrow> real) \<Rightarrow> bool" where
  "unitRandom rnd = (\<forall>i. 0 \<le> rnd i \<and> rnd i < 1)"

text \<open>
  The loop \<^verbatim>\<open>for (let i = array.length - 1; i > 0; i--)\<close> of \<^verbatim>\<open>shuffleArray\<close>,
  entered with loop variable \<open>i\<close>.
\<close>

fun shuffleFrom :: "(nat \<Rightarrow> real) \<Rightarrow> nat \<Rightarrow> 'a list \<Rightarrow> 'a list" where
  "shuffleFrom rnd 0 array = array"
| "shuffleFrom rnd (Suc n) array =
     shuffleFrom rnd n (swap array (Suc n) (randomIndex (rnd (Suc n)) (Suc n)))"

definition shuffleArray :: "(nat \<Rightarrow> real) \<Rightarrow> 'a list \<Rightarrow> 'a list" where
  "shuffleArray rnd array = shuffleFrom rnd (length array - 1) array"

definition createTileBag :: "(nat \<Rightarrow> real) \<Rightarrow> tile list" where
  "createTileBag rnd = shuffleArray rnd unshuffledBag"

section \<open>Drawing tiles\<close>

text \<open>
  The loop of \<^verbatim>\<open>drawTilesForPlayer\<close> on the two arrays it mutates:
  \<^verbatim>\<open>while (rack.length < 7 && tileBag.length > 0) rack.push(tileBag.pop())\<close>.
\<close>

function drawLoop :: "tile list \<Rightarrow> tile list \<Rightarrow> tile list \<times> tile list" where
  "drawLoop tiles bag =
     (if length tiles < 7 \<and> length bag > 0
      then drawLoop (tiles @ [last bag]) (butlast bag)
      else (tiles, bag))"
  by pat_completeness auto
termination
  by (relation "measure (\<lambda>(tiles, bag). length bag)") auto

declare drawLoop.simps [simp del]

text \<open>
  \<^verbatim>\<open>drawTilesForPlayer(player, count)\<close> mutates the player object and the bag; the
  model returns both. The parameter \<^verbatim>\<open>count\<close> is not read by the source.
\<close>

definition drawTilesForPlayer :: "player \<Rightarrow> nat \<Rightarrow> tile list \<Rightarrow> player \<times> tile list" where
  "drawTilesForPlayer p count' bag =
     (let (tiles, bag') = drawLoop (rack p) bag in (p\<lparr> rack := tiles \<rparr>, bag'))"

text \<open>\<^verbatim>\<open>this.players.forEach(player => this.drawTilesForPlayer(player, 7))\<close>.\<close>

fun drawForEach :: "player list \<Rightarrow> tile list \<Rightarrow> player list \<times> tile list" where
  "drawForEach [] bag = ([], bag)"
| "drawForEach (p # ps) bag =
     (let (p', bag') = drawTilesForPlayer p 7 bag;
          (ps', bag'') = drawForEach ps bag'
      in (p' # ps', bag''))"

section \<open>Game set-up and turn order\<close>

definition newPlayer :: "nat \<Rightarrow> player" where
  "newPlayer i = \<lparr> player_id = i, name = ''Player '' @ showNum (i + 1), score = 0, rack = [] \<rparr>"

definition determineStartingPlayer :: "game \<Rightarrow> game" where
  "determineStartingPlayer g = g\<lparr> currentPlayerIndex := Idx 0 \<rparr>"

text \<open>
  \<^verbatim>\<open>initializeGame\<close>; \<open>rnd\<close> is the random source of the shuffle. None of its steps
  can throw, so the \<^verbatim>\<open>try\<close> block always completes.
\<close>

definition initializeGame :: "(nat \<Rightarrow> real) \<Rightarrow> game \<Rightarrow> game" where
  "initializeGame rnd g =
     (let g1 = g\<lparr> board := createBoard,
                  tileBag := createTileBag rnd,
                  squareMultipliers := createSquareMultipliers \<rparr>;
          g2 = g1\<lparr> players := players g1 @ map newPlayer [0..<2] \<rparr>;
          (ps, bag) = drawForEach (players g2) (tileBag g2);
          g3 = g2\<lparr> players := ps, tileBag := bag \<rparr>
      in determineStartingPlayer g3)"

text \<open>
  \<^verbatim>\<open>this.players[this.currentPlayerIndex]\<close>: \<^verbatim>\<open>undefined\<close> (\<open>None\<close>) when the
  index is \<^verbatim>\<open>NaN\<close> or not below the length.
\<close>

definition getCurrentPlayer :: "game \<Rightarrow> player option" where
  "getCurrentPlayer g =
     (case currentPlayerIndex g of
        NaN \<Rightarrow> None
      | Idx i \<Rightarrow> if i < length (players g) then Some (players g ! i) else None)"

definition getPlayers :: "game \<Rightarrow> player list" where
  "getPlayers g = players g"

text \<open>
  \<^verbatim>\<open>passTurn\<close>. In JavaScript \<^verbatim>\<open>x % 0\<close> and \<^verbatim>\<open>NaN + 1\<close> are \<^verbatim>\<open>NaN\<close>.
\<close>

definition passTurn :: "game \<Rightarrow> game" where
  "passTurn g =
     g\<lparr> currentPlayerIndex :=
          (case currentPlayerIndex g of
             NaN \<Rightarrow> NaN
           | Idx i \<Rightarrow>
               if length (players g) = 0 then NaN
               else Idx ((i + 1) mod length (players g))) \<rparr>"

text \<open>
  Writing through the reference \<^verbatim>\<open>currentPlayer\<close>: the object is the element of
  \<^verbatim>\<open>players\<close> at the current index.
\<close>

definition setCurrentPlayer :: "game \<Rightarrow> player \<Rightarrow> game" where
  "setCurrentPlayer g p =
     (case currentPlayerIndex g of
        NaN \<Rightarrow> g
      | Idx i \<Rightarrow> g\<lparr> players := (players g)[i := p] \<rparr>)"

text \<open>
  \<^verbatim>\<open>exchangeTiles\<close>. The assignment \<^verbatim>\<open>currentPlayer.rack = []\<close> throws when there
  is no current player, before anything is changed.
\<close>

definition exchangeTiles :: "game \<Rightarrow> error + game" where
  "exchangeTiles g =
     (case getCurrentPlayer g of
        None \<Rightarrow> Inl TypeError
      | Some currentPlayer \<Rightarrow>
          (let (p, bag) = drawTilesForPlayer (currentPlayer\<lparr> rack := [] \<rparr>) 7 (tileBag g)
           in Inr (passTurn ((setCurrentPlayer g p)\<lparr> tileBag := bag \<rparr>))))"

section \<open>Submitting a word\<close>

text \<open>
  \<^verbatim>\<open>this.board[i][j] !== null\<close>: reading a column of a missing row throws; a missing
  column of a row is \<^verbatim>\<open>undefined\<close>, which is not \<^verbatim>\<open>null\<close>.
\<close>

definition cellNotNull :: "tile option list list \<Rightarrow> nat \<Rightarrow> nat \<Rightarrow> error + bool" where
  "cellNotNull b i j =
     (if i < length b
      then Inr (if j < length (b ! i) then (b ! i) ! j \<noteq> None else True)
      else Inl TypeError)"

text \<open>
  The nested loops of \<^verbatim>\<open>isFirstMove\<close> over the cells in row-major order, leaving
  at the first cell that is not \<^verbatim>\<open>null\<close>.
\<close>

fun scanCells :: "tile option list list \<Rightarrow> (nat \<times> nat) list \<Rightarrow> error + bool" where
  "scanCells b [] = Inr True"
| "scanCells b ((i, j) # cells) =
     (case cellNotNull b i j of
        Inl e \<Rightarrow> Inl e
      | Inr notNull \<Rightarrow> if notNull then Inr False else scanCells b cells)"

definition isFirstMove :: "game \<Rightarrow> error + bool" where
  "isFirstMove g = scanCells (board g) (List.product [0..<15] [0..<15])"

definition coversCenter :: "game \<Rightarrow> error + bool" where
  "coversCenter g = cellNotNull (board g) 7 7"

text \<open>
  \<^verbatim>\<open>Math.floor(Math.random() * 50) + 10\<close>, with \<open>r\<close> the value of
  \<^verbatim>\<open>Math.random()\<close>.
\<close>

definition calculateScore :: "real \<Rightarrow> int" where
  "calculateScore r = \<lfloor>r * 50\<rfloor> + 10"

text \<open>The part of \<^verbatim>\<open>submitWord\<close> after the first-move check.\<close>

definition scoreAndAdvance :: "real \<Rightarrow> game \<Rightarrow> error + (result \<times> game)" where
  "scoreAndAdvance r g =
     (let sc = calculateScore r in
      case getCurrentPlayer g of
        None \<Rightarrow> Inl TypeError
      | Some currentPlayer \<Rightarrow>
          (let (p, bag) =
                 drawTilesForPlayer (currentPlayer\<lparr> score := score currentPlayer + sc \<rparr>) 7
                   (tileBag g)
           in Inr (\<lparr> valid = True, score_res = Some sc, message = None \<rparr>,
                   passTurn ((setCurrentPlayer g p)\<lparr> tileBag := bag \<rparr>))))"

definition firstMoveMessage :: string where
  "firstMoveMessage = ''First word must cover the center square''"

text \<open>
  \<^verbatim>\<open>submitWord\<close>; \<open>r\<close> is the value \<^verbatim>\<open>Math.random()\<close> returns inside
  \<^verbatim>\<open>calculateScore\<close>. Every exception is thrown before the first assignment, so
  \<open>Inl\<close> leaves the game as it was.
\<close>

definition submitWord :: "real \<Rightarrow> game \<Rightarrow> error + (result \<times> game)" where
  "submitWord r g =
     (case isFirstMove g of
        Inl e \<Rightarrow> Inl e
      | Inr first \<Rightarrow>
          if first then
            (case coversCenter g of
               Inl e \<Rightarrow> Inl e
             | Inr covers \<Rightarrow>
                 if \<not> covers
                 then Inr (\<lparr> valid = False, score_res = None,
                              message = Some firstMoveMessage \<rparr>, g)
                 else scoreAndAdvance r g)
          else scoreAndAdvance r g)"

definition selectTile :: "nat \<Rightarrow> game \<Rightarrow> game" where
  "selectTile i g = g\<lparr> selectedTiles := selectedTiles g @ [i] \<rparr>"

section \<open>Reachable states and tile counts\<close>

text \<open>
  The states of a game: \<^verbatim>\<open>initializeGame()\<close> on a new object, then any sequence of
  the three commands. A command that throws leaves the state unchanged.
\<close>

inductive reachable :: "game \<Rightarrow> bool" where
  init: "unitRandom rnd \<Longrightarrow> reachable (initializeGame rnd newGame)"
| pass: "reachable g \<Longrightarrow> reachable (passTurn g)"
| exchange: "reachable g \<Longrightarrow> exchangeTiles g = Inr g' \<Longrightarrow> reachable g'"
| submit: "reachable g \<Longrightarrow> 0 \<le> r \<Longrightarrow> r < 1 \<Longrightarrow> submitWord r g = Inr (res, g') \<Longrightarrow> reachable g'"

definition tilesOnBoard :: "tile option list list \<Rightarrow> nat" where
  "tilesOnBoard b = sum_list (map (\<lambda>row. length (filter (\<lambda>c. c \<noteq> None) row)) b)"

definition tilesInRacks :: "player list \<Rightarrow> nat" where
  "tilesInRacks ps = sum_list (map (\<lambda>p. length (rack p)) ps)"

definition tileTotal :: "game \<Rightarrow> nat" where
  "tileTotal g = length (tileBag g) + tilesInRacks (players g) + tilesOnBoard (board g)"

text \<open>\<open>n\<close> calls of \<^verbatim>\<open>exchangeTiles()\<close> in a row, up to the first exception.\<close>

fun exchangeTimes :: "nat \<Rightarrow> game \<Rightarrow> error + game" where
  "exchangeTimes 0 g = Inr g"
| "exchangeTimes (Suc n) g =
     (case exchangeTimes n g of Inl e \<Rightarrow> Inl e | Inr g' \<Rightarrow> exchangeTiles g')"

text \<open>The size of the bag, the sizes of the racks in roster order, and the turn index.\<close>

definition tileCounts :: "game \<Rightarrow> nat \<times> nat list \<times> index" where
  "tileCounts g =
     (length (tileBag g), map (\<lambda>p. length (rack p)) (players g), currentPlayerIndex g)"

section \<open>The Fisher--Yates shuffle of the specification\<close>



text \<open>The steps of that shuffle for the indices \<open>m\<close> down to 1.\<close>

fun fisherYatesFrom :: "(nat \<Rightarrow> nat) \<Rightarrow> nat \<Rightarrow> 'a list \<Rightarrow> 'a list" where
  "fisherYatesFrom c 0 xs = xs"
| "fisherYatesFrom c (Suc n) xs = fisherYatesFrom c n (swap xs (Suc n) (c (Suc n)))"


section \<open>Sample states\<close>

text \<open>Small concrete values on which the theorems below are instantiated.\<close>

definition sampleTiles :: "string list \<Rightarrow> tile list" where
  "sampleTiles ls =
     map (\<lambda>l. \<lparr> letter = l,
                points = (case map_of (letterValues newGame) l of Some v \<Rightarrow> v | None \<Rightarrow> 0),
                isBlank = (l = '' '') \<rparr>) ls"

definition sampleRack :: "tile list" where
  "sampleRack = sampleTiles [''S'', ''C'', ''R'', ''A'', ''B'', ''L'', ''E'']"

text \<open>Two players holding seven tiles each, two tiles left in the bag, empty board.\<close>

definition sampleOpening :: game where
  "sampleOpening =
     newGame\<lparr> board := createBoard,
              players := [(newPlayer 0)\<lparr> rack := sampleRack \<rparr>,
                          (newPlayer 1)\<lparr> rack := sampleRack \<rparr>],
              tileBag := sampleTiles [''X'', ''Z''],
              squareMultipliers := createSquareMultipliers \<rparr>"

text \<open>The same state with a tile on the center cell and rack index 0 selected.\<close>

definition sampleMidgame :: game where
  "sampleMidgame =
     sampleOpening\<lparr> board := createBoard[7 := (createBoard ! 7)[7 := Some (hd sampleRack)]],
                    selectedTiles := [0] \<rparr>"

section \<open>Facts about drawing\<close>

lemma drawLoop_rev:
  "drawLoop tiles (rev xs) =
     (tiles @ take (min (7 - length tiles) (length xs)) xs,
      rev (drop (min (7 - length tiles) (length xs)) xs))"
proof (induction xs arbitrary: tiles)
  case Nil
  show ?case by (simp add: drawLoop.simps)
next
  case (Cons x xs)
  show ?case
  proof (cases "length tiles < 7")
    case True
    then have m: "min (7 - length tiles) (length (x # xs))
                  = Suc (min (7 - length (tiles @ [x])) (length xs))"
      by auto
    have "drawLoop tiles (rev (x # xs)) = drawLoop (tiles @ [x]) (rev xs)"
      using True by (subst drawLoop.simps) simp
    then show ?thesis
      unfolding m Cons.IH by simp
  next
    case False
    then show ?thesis by (subst drawLoop.simps) simp
  qed
qed

text \<open>The loop moves the last \<open>k\<close> tiles of the bag to the end of the rack, last tile first.\<close>

lemma drawLoop_eq:
  "drawLoop tiles bag =
     (tiles @ take (min (7 - length tiles) (length bag)) (rev bag),
      rev (drop (min (7 - length tiles) (length bag)) (rev bag)))"
  using drawLoop_rev [of tiles "rev bag"] by simp

lemma drawTilesForPlayer_eq:
  "drawTilesForPlayer p n bag =
     (p\<lparr> rack := rack p @ take (min (7 - length (rack p)) (length bag)) (rev bag) \<rparr>,
      rev (drop (min (7 - length (rack p)) (length bag)) (rev bag)))"
  by (simp add: drawTilesForPlayer_def drawLoop_eq)

section \<open>Facts about the shuffle and the initial state\<close>

lemma length_swap: "length (swap xs i j) = length xs"
  by (simp add: swap_def)

lemma length_shuffleFrom: "length (shuffleFrom rnd n xs) = length xs"
  by (induction n arbitrary: xs) (simp_all add: length_swap)

lemma length_unshuffledBag: "length unshuffledBag = 100"
  by code_simp

lemma length_createTileBag: "length (createTileBag rnd) = 100"
  by (simp add: createTileBag_def shuffleArray_def length_shuffleFrom length_unshuffledBag)

lemma two_players: "map newPlayer [0..<2] = [newPlayer 0, newPlayer 1]"
  by (simp add: upt_rec)

lemma rack_newPlayer: "rack (newPlayer i) = []"
  by (simp add: newPlayer_def)

text \<open>The state after \<^verbatim>\<open>initializeGame()\<close>: each player holds the seven tiles popped for them.\<close>

lemma initializeGame_newGame:
  "initializeGame rnd newGame =
     newGame\<lparr> board := createBoard,
              players := [(newPlayer 0)\<lparr> rack := take 7 (rev (createTileBag rnd)) \<rparr>,
                          (newPlayer 1)\<lparr> rack := take 7 (drop 7 (rev (createTileBag rnd))) \<rparr>],
              tileBag := rev (drop 14 (rev (createTileBag rnd))),
              squareMultipliers := createSquareMultipliers \<rparr>"
  by (simp add: initializeGame_def determineStartingPlayer_def newGame_def two_players
      drawTilesForPlayer_eq rack_newPlayer length_createTileBag)

lemma init_index: "currentPlayerIndex (initializeGame rnd newGame) = Idx 0"
  by (simp add: initializeGame_newGame) (simp add: newGame_def)

lemma init_players:
  "players (initializeGame rnd newGame) =
     [(newPlayer 0)\<lparr> rack := take 7 (rev (createTileBag rnd)) \<rparr>,
      (newPlayer 1)\<lparr> rack := take 7 (drop 7 (rev (createTileBag rnd))) \<rparr>]"
  by (simp add: initializeGame_newGame)

lemma init_bag:
  "tileBag (initializeGame rnd newGame) = rev (drop 14 (rev (createTileBag rnd)))"
  by (simp add: initializeGame_newGame)

lemma init_board: "board (initializeGame rnd newGame) = createBoard"
  by (simp add: initializeGame_newGame)

lemma init_multipliers:
  "squareMultipliers (initializeGame rnd newGame) = createSquareMultipliers"
  by (simp add: initializeGame_newGame)

lemma tilesOnBoard_createBoard: "tilesOnBoard createBoard = 0"
  by (simp add: tilesOnBoard_def createBoard_def)

lemma createBoard_replicate: "createBoard = replicate 15 (replicate 15 None)"
  by (simp add: createBoard_def map_replicate_const)

lemma unitRandom_zero: "unitRandom (\<lambda>i. 0)"
  by (simp add: unitRandom_def)

section \<open>Facts about the commands\<close>

lemma exchangeTiles_eq:
  assumes "currentPlayerIndex g = Idx i" and "i < length (players g)"
  shows "exchangeTiles g =
     Inr (g\<lparr> players := (players g)[i := (players g ! i)\<lparr> rack :=
                   take (min 7 (length (tileBag g))) (rev (tileBag g)) \<rparr>],
             tileBag := rev (drop (min 7 (length (tileBag g))) (rev (tileBag g))),
             currentPlayerIndex := Idx ((i + 1) mod length (players g)) \<rparr>)"
proof -
  have ne: "players g \<noteq> []"
    using assms(2) by auto
  show ?thesis
    using assms ne
    by (simp add: exchangeTiles_def getCurrentPlayer_def drawTilesForPlayer_eq
        setCurrentPlayer_def passTurn_def)
qed

lemma scoreAndAdvance_eq:
  assumes "currentPlayerIndex g = Idx i" and "i < length (players g)"
  shows "scoreAndAdvance r g =
     Inr (\<lparr> valid = True, score_res = Some (calculateScore r), message = None \<rparr>,
          g\<lparr> players := (players g)[i := (players g ! i)\<lparr>
                   score := score (players g ! i) + calculateScore r,
                   rack := rack (players g ! i)
                     @ take (min (7 - length (rack (players g ! i))) (length (tileBag g)))
                         (rev (tileBag g)) \<rparr>],
             tileBag := rev (drop (min (7 - length (rack (players g ! i))) (length (tileBag g)))
                                 (rev (tileBag g))),
             currentPlayerIndex := Idx ((i + 1) mod length (players g)) \<rparr>)"
proof -
  have ne: "players g \<noteq> []"
    using assms(2) by auto
  show ?thesis
    using assms ne
    by (simp add: scoreAndAdvance_def getCurrentPlayer_def drawTilesForPlayer_eq
        setCurrentPlayer_def passTurn_def Let_def)
qed

lemma scoreAndAdvance_player:
  "scoreAndAdvance r g = Inr (res, g') \<Longrightarrow>
   \<exists>i. currentPlayerIndex g = Idx i \<and> i < length (players g)"
  by (auto simp add: scoreAndAdvance_def getCurrentPlayer_def Let_def
      split: option.splits index.splits if_splits)

lemma submitWord_cases:
  "submitWord r g = Inr (res, g') \<Longrightarrow>
   (res = \<lparr> valid = False, score_res = None, message = Some firstMoveMessage \<rparr> \<and> g' = g)
   \<or> scoreAndAdvance r g = Inr (res, g')"
  by (auto simp add: submitWord_def split: sum.splits if_splits)

text \<open>No command assigns the board or the multiplier object.\<close>

lemma passTurn_frame:
  "board (passTurn g) = board g \<and> squareMultipliers (passTurn g) = squareMultipliers g"
  by (simp add: passTurn_def)

lemma exchangeTiles_frame:
  "exchangeTiles g = Inr g' \<Longrightarrow>
   board g' = board g \<and> squareMultipliers g' = squareMultipliers g"
  by (auto simp add: exchangeTiles_def passTurn_def setCurrentPlayer_def
      split: option.splits prod.splits index.splits)

lemma scoreAndAdvance_frame:
  "scoreAndAdvance r g = Inr (res, g') \<Longrightarrow>
   board g' = board g \<and> squareMultipliers g' = squareMultipliers g"
  by (auto simp add: scoreAndAdvance_def passTurn_def setCurrentPlayer_def Let_def
      split: option.splits prod.splits index.splits)

lemma submitWord_frame:
  "submitWord r g = Inr (res, g') \<Longrightarrow>
   board g' = board g \<and> squareMultipliers g' = squareMultipliers g"
  using submitWord_cases [of r g res g'] scoreAndAdvance_frame [of r g res g'] by auto

lemma reachable_board: "reachable g \<Longrightarrow> board g = createBoard"
  by (induction rule: reachable.induct)
     (simp_all add: init_board passTurn_frame exchangeTiles_frame submitWord_frame)

lemma reachable_multipliers: "reachable g \<Longrightarrow> squareMultipliers g = createSquareMultipliers"
  by (induction rule: reachable.induct)
     (simp_all add: init_multipliers passTurn_frame exchangeTiles_frame submitWord_frame)

section \<open>Passing the turn\<close>

text \<open>
  C9. \<^verbatim>\<open>passTurn()\<close> reads no \<open>gameOver\<close> flag and cannot throw. In a state with at
  least one player and a numeric turn index it sets \<open>currentPlayerIndex\<close> to
  (previous index + 1) mod the number of players. In every state it changes no other field:
  the players (scores and racks), the board, the bag and the multiplier map stay as they
  were.
\<close>

theorem passTurn_advances_index_only:
  "(players g \<noteq> [] \<and> currentPlayerIndex g = Idx i \<longrightarrow>
      currentPlayerIndex (passTurn g) = Idx ((i + 1) mod length (players g)))
   \<and> passTurn g = g\<lparr> currentPlayerIndex := currentPlayerIndex (passTurn g) \<rparr>
   \<and> players (passTurn g) = players g
   \<and> board (passTurn g) = board g
   \<and> tileBag (passTurn g) = tileBag g
   \<and> squareMultipliers (passTurn g) = squareMultipliers g
   \<and> gameOver (passTurn g) = gameOver g"
  by (simp add: passTurn_def)

theorem passTurn_advances_index_only_witness:
  "players sampleOpening \<noteq> [] \<and> currentPlayerIndex sampleOpening = Idx 0
   \<and> gameOver sampleOpening = False
   \<and> passTurn sampleOpening = sampleOpening\<lparr> currentPlayerIndex := Idx 1 \<rparr>
   \<and> passTurn (passTurn sampleOpening) = sampleOpening"
proof -
  let ?next = "sampleOpening\<lparr> currentPlayerIndex := Idx 1 \<rparr>"
  have h1: "players sampleOpening \<noteq> []"
    by (simp add: sampleOpening_def)
  have h2: "currentPlayerIndex sampleOpening = Idx 0"
    by (simp add: sampleOpening_def newGame_def)
  have l: "length (players sampleOpening) = 2"
    by (simp add: sampleOpening_def)
  have i1: "currentPlayerIndex (passTurn sampleOpening) = Idx 1"
    using passTurn_advances_index_only [of sampleOpening 0] h1 h2 l by simp
  have f1: "passTurn sampleOpening
            = sampleOpening\<lparr> currentPlayerIndex := currentPlayerIndex (passTurn sampleOpening) \<rparr>"
    using passTurn_advances_index_only [of sampleOpening 0] by blast
  have a: "passTurn sampleOpening = ?next"
    by (rule f1 [unfolded i1])
  have h3: "players ?next \<noteq> []" and h4: "currentPlayerIndex ?next = Idx 1"
    and l2: "length (players ?next) = 2"
    using h1 l by simp_all
  have i2: "currentPlayerIndex (passTurn ?next) = Idx 0"
    using passTurn_advances_index_only [of ?next 1] h3 h4 l2 by simp
  have f2: "passTurn ?next = ?next\<lparr> currentPlayerIndex := currentPlayerIndex (passTurn ?next) \<rparr>"
    using passTurn_advances_index_only [of ?next 1] by blast
  have "passTurn ?next = sampleOpening\<lparr> currentPlayerIndex := Idx 0 \<rparr>"
    using f2 [unfolded i2] by simp
  also have "\<dots> = sampleOpening"
    using h2 by (simp add: sampleOpening_def newGame_def)
  finally have b: "passTurn (passTurn sampleOpening) = sampleOpening"
    unfolding a .
  have g: "gameOver sampleOpening = False"
    by (simp add: sampleOpening_def newGame_def)
  show ?thesis
    using h1 h2 g a b by (intro conjI)
qed

section \<open>Refilling a rack\<close>

text \<open>
  C10. For every player and bag, \<^verbatim>\<open>drawTilesForPlayer\<close> moves tiles from the end of the
  bag to the end of the rack until the rack is no longer below 7 tiles or the bag is empty;
  a rack that starts with at most 7 tiles (the rack bound of the data model) ends with
  exactly 7 tiles or with an empty bag. Running it again right afterwards changes neither
  the rack nor the bag.
\<close>

theorem drawTilesForPlayer_refill_idempotent:
  assumes "drawTilesForPlayer p n bag = (p', bag')"
  shows "(length (rack p) \<le> 7 \<longrightarrow> length (rack p') = 7 \<or> bag' = [])
       \<and> \<not> (length (rack p') < 7 \<and> bag' \<noteq> [])
       \<and> rack p' = rack p @ take (min (7 - length (rack p)) (length bag)) (rev bag)
       \<and> bag' = rev (drop (min (7 - length (rack p)) (length bag)) (rev bag))
       \<and> p' = p\<lparr> rack := rack p' \<rparr>
       \<and> drawTilesForPlayer p' m bag' = (p', bag')"
proof -
  let ?k = "min (7 - length (rack p)) (length bag)"
  have p': "p' = p\<lparr> rack := rack p @ take ?k (rev bag) \<rparr>"
    and bag': "bag' = rev (drop ?k (rev bag))"
    using assms by (simp_all add: drawTilesForPlayer_eq)
  have len: "length (rack p') = length (rack p) + ?k"
    by (simp add: p')
  have lbag: "length bag' = length bag - ?k"
    by (simp add: bag')
  have empty: "(bag' = []) = (length bag' = 0)"
    by simp
  have stop: "\<not> (length (rack p') < 7 \<and> bag' \<noteq> [])"
    unfolding empty using len lbag by arith
  have exact: "length (rack p) \<le> 7 \<longrightarrow> length (rack p') = 7 \<or> bag' = []"
    unfolding empty using len lbag by arith
  have zero: "min (7 - length (rack p')) (length bag') = 0"
    using stop unfolding empty by arith
  have again: "drawTilesForPlayer p' m bag' = (p', bag')"
    by (simp add: drawTilesForPlayer_eq zero)
  show ?thesis
    using stop exact again p' bag' by simp
qed

theorem drawTilesForPlayer_refill_idempotent_witness:
  "drawTilesForPlayer ((newPlayer 0)\<lparr> rack := sampleTiles [''Q'', ''U'', ''I'', ''T'', ''E''] \<rparr>) 7
       (sampleTiles [''X'', ''Y'', ''Z''])
     = ((newPlayer 0)\<lparr> rack := sampleTiles [''Q'', ''U'', ''I'', ''T'', ''E'', ''Z'', ''Y''] \<rparr>,
        sampleTiles [''X''])
   \<and> drawTilesForPlayer
       ((newPlayer 0)\<lparr> rack := sampleTiles [''Q'', ''U'', ''I'', ''T'', ''E'', ''Z'', ''Y''] \<rparr>) 7
       (sampleTiles [''X''])
     = ((newPlayer 0)\<lparr> rack := sampleTiles [''Q'', ''U'', ''I'', ''T'', ''E'', ''Z'', ''Y''] \<rparr>,
        sampleTiles [''X''])"
proof -
  have h: "drawTilesForPlayer
             ((newPlayer 0)\<lparr> rack := sampleTiles [''Q'', ''U'', ''I'', ''T'', ''E''] \<rparr>) 7
             (sampleTiles [''X'', ''Y'', ''Z''])
           = ((newPlayer 0)\<lparr> rack :=
                 sampleTiles [''Q'', ''U'', ''I'', ''T'', ''E'', ''Z'', ''Y''] \<rparr>,
              sampleTiles [''X''])"
    by (simp add: drawTilesForPlayer_eq sampleTiles_def)
  have again: "drawTilesForPlayer
             ((newPlayer 0)\<lparr> rack :=
                 sampleTiles [''Q'', ''U'', ''I'', ''T'', ''E'', ''Z'', ''Y''] \<rparr>) 7
             (sampleTiles [''X''])
           = ((newPlayer 0)\<lparr> rack :=
                 sampleTiles [''Q'', ''U'', ''I'', ''T'', ''E'', ''Z'', ''Y''] \<rparr>,
              sampleTiles [''X''])"
    using drawTilesForPlayer_refill_idempotent [OF h, of 7] by blast
  show ?thesis
    using h again by (rule conjI)
qed

section \<open>The first-move check\<close>

lemma scanCells_all_null:
  "scanCells b cells = Inr True \<Longrightarrow> (i, j) \<in> set cells \<Longrightarrow> cellNotNull b i j = Inr False"
  by (induction b cells rule: scanCells.induct) (auto split: sum.splits if_splits)

lemma center_scanned: "(7, 7) \<in> set (List.product [0..<15] [0..<15])"
  by simp

lemma isFirstMove_coversCenter:
  "isFirstMove g = Inr True \<Longrightarrow> coversCenter g = Inr False"
  using scanCells_all_null [OF _ center_scanned, of "board g"]
  by (simp add: isFirstMove_def coversCenter_def)

lemma scanCells_createBoard:
  "scanCells createBoard (List.product [0..<15] [0..<15]) = Inr True"
  by code_simp

lemma isFirstMove_createBoard: "board g = createBoard \<Longrightarrow> isFirstMove g = Inr True"
  by (simp add: isFirstMove_def scanCells_createBoard)

text \<open>
  C6. In every state whose board is empty (every scanned cell is \<^verbatim>\<open>null\<close>, so that
  \<^verbatim>\<open>isFirstMove()\<close> is true) the center cell is not covered, and \<^verbatim>\<open>submitWord()\<close>
  returns \<^verbatim>\<open>{valid: false, message}\<close> and leaves the whole state as it was: board,
  scores, racks, bag and turn index.
\<close>

theorem submitWord_empty_board_rejected:
  assumes "isFirstMove g = Inr True"
  shows "coversCenter g = Inr False
       \<and> submitWord r g =
           Inr (\<lparr> valid = False, score_res = None, message = Some firstMoveMessage \<rparr>, g)"
  using assms isFirstMove_coversCenter [OF assms] by (simp add: submitWord_def)

theorem submitWord_empty_board_rejected_witness:
  "isFirstMove sampleOpening = Inr True
   \<and> submitWord (1 / 2) sampleOpening =
       Inr (\<lparr> valid = False, score_res = None,
              message = Some ''First word must cover the center square'' \<rparr>, sampleOpening)"
proof -
  have h: "isFirstMove sampleOpening = Inr True"
    by (rule isFirstMove_createBoard) (simp add: sampleOpening_def)
  show ?thesis
    using h submitWord_empty_board_rejected [OF h, of "1 / 2"]
    by (simp add: firstMoveMessage_def)
qed

section \<open>The board in a running game\<close>

text \<open>
  C2. In every state reachable from \<^verbatim>\<open>initializeGame()\<close> by \<^verbatim>\<open>submitWord()\<close>,
  \<^verbatim>\<open>passTurn()\<close> and \<^verbatim>\<open>exchangeTiles()\<close>, the board is the 15 by 15 grid of
  \<^verbatim>\<open>null\<close> cells. So \<^verbatim>\<open>isFirstMove()\<close> is true, \<^verbatim>\<open>coversCenter()\<close> is false, and
  \<^verbatim>\<open>submitWord()\<close> returns \<^verbatim>\<open>{valid: false, message}\<close> with the state (scores and
  turn index included) as it was.
\<close>

theorem reachable_board_stays_empty:
  assumes "reachable g"
  shows "board g = replicate 15 (replicate 15 None)
       \<and> tilesOnBoard (board g) = 0
       \<and> isFirstMove g = Inr True
       \<and> coversCenter g = Inr False
       \<and> submitWord r g =
           Inr (\<lparr> valid = False, score_res = None, message = Some firstMoveMessage \<rparr>, g)"
proof -
  have b: "board g = createBoard"
    using assms by (rule reachable_board)
  have f: "isFirstMove g = Inr True"
    using b by (rule isFirstMove_createBoard)
  show ?thesis
    using b f isFirstMove_coversCenter [OF f] tilesOnBoard_createBoard
    by (simp add: submitWord_def createBoard_replicate)
qed

theorem reachable_board_stays_empty_witness:
  "reachable (passTurn (initializeGame (\<lambda>i. 0) newGame))
   \<and> board (passTurn (initializeGame (\<lambda>i. 0) newGame)) = replicate 15 (replicate 15 None)
   \<and> submitWord (1 / 2) (passTurn (initializeGame (\<lambda>i. 0) newGame)) =
       Inr (\<lparr> valid = False, score_res = None,
              message = Some ''First word must cover the center square'' \<rparr>,
            passTurn (initializeGame (\<lambda>i. 0) newGame))"
proof -
  have h: "reachable (passTurn (initializeGame (\<lambda>i. 0) newGame))"
    by (intro reachable.pass reachable.init unitRandom_zero)
  show ?thesis
    using h reachable_board_stays_empty [OF h, of "1 / 2"] by (simp add: firstMoveMessage_def)
qed

section \<open>An accepted word\<close>

text \<open>
  C3, as the code has it. Whenever \<^verbatim>\<open>submitWord()\<close> returns a valid result, there is a
  current player; the result is \<^verbatim>\<open>{valid: true, score: points}\<close> with the points of
  \<^verbatim>\<open>calculateScore()\<close>; the points are added to the current player's score; the rack
  keeps every tile it had and is refilled from the end of the bag up to 7 tiles; the turn
  passes to the next player; the other players, the board and the multiplier map are
  unchanged. No tile is put on the board and none is taken from the rack.
\<close>

theorem submitWord_accepted_effect:
  assumes "submitWord r g = Inr (res, g')" and "valid res"
  shows "\<exists>i. currentPlayerIndex g = Idx i \<and> i < length (players g)
       \<and> res = \<lparr> valid = True, score_res = Some (calculateScore r), message = None \<rparr>
       \<and> score (players g' ! i) = score (players g ! i) + calculateScore r
       \<and> rack (players g' ! i) =
           rack (players g ! i)
             @ take (min (7 - length (rack (players g ! i))) (length (tileBag g)))
                 (rev (tileBag g))
       \<and> tileBag g' =
           rev (drop (min (7 - length (rack (players g ! i))) (length (tileBag g)))
                  (rev (tileBag g)))
       \<and> currentPlayerIndex g' = Idx ((i + 1) mod length (players g))
       \<and> (\<forall>k. k \<noteq> i \<longrightarrow> players g' ! k = players g ! k)
       \<and> length (players g') = length (players g)
       \<and> board g' = board g
       \<and> squareMultipliers g' = squareMultipliers g"
proof -
  have s: "scoreAndAdvance r g = Inr (res, g')"
    using submitWord_cases [OF assms(1)] assms(2) by auto
  obtain i where i: "currentPlayerIndex g = Idx i" "i < length (players g)"
    using scoreAndAdvance_player [OF s] by blast
  show ?thesis
    using s i unfolding scoreAndAdvance_eq [OF i]
    by (intro exI [of _ i]) auto
qed

text \<open>
  The claim as stated fails: with a tile on the center and rack index 0 selected,
  \<^verbatim>\<open>submitWord()\<close> accepts the move for 35 points, and the board still holds one tile and
  the first player still holds the same seven tiles.
\<close>

theorem submitWord_accepted_places_no_tile:
  "selectedTiles sampleMidgame = [0]
   \<and> tilesOnBoard (board sampleMidgame) = 1
   \<and> rack (players sampleMidgame ! 0) = sampleRack
   \<and> submitWord (1 / 2) sampleMidgame =
       Inr (\<lparr> valid = True, score_res = Some 35, message = None \<rparr>,
            sampleMidgame\<lparr> players := [(newPlayer 0)\<lparr> score := 35, rack := sampleRack \<rparr>,
                                       (newPlayer 1)\<lparr> rack := sampleRack \<rparr>],
                           currentPlayerIndex := Idx 1 \<rparr>)"
  by code_simp

theorem submitWord_accepted_effect_witness:
  "submitWord (1 / 2) sampleMidgame =
       Inr (\<lparr> valid = True, score_res = Some 35, message = None \<rparr>,
            sampleMidgame\<lparr> players := [(newPlayer 0)\<lparr> score := 35, rack := sampleRack \<rparr>,
                                       (newPlayer 1)\<lparr> rack := sampleRack \<rparr>],
                           currentPlayerIndex := Idx 1 \<rparr>)
   \<and> valid \<lparr> valid = True, score_res = Some 35, message = None \<rparr>
   \<and> board (sampleMidgame\<lparr> players := [(newPlayer 0)\<lparr> score := 35, rack := sampleRack \<rparr>,
                                       (newPlayer 1)\<lparr> rack := sampleRack \<rparr>],
                           currentPlayerIndex := Idx 1 \<rparr>) = board sampleMidgame"
proof -
  have h: "submitWord (1 / 2) sampleMidgame =
       Inr (\<lparr> valid = True, score_res = Some 35, message = None \<rparr>,
            sampleMidgame\<lparr> players := [(newPlayer 0)\<lparr> score := 35, rack := sampleRack \<rparr>,
                                       (newPlayer 1)\<lparr> rack := sampleRack \<rparr>],
                           currentPlayerIndex := Idx 1 \<rparr>)"
    by code_simp
  have v: "valid \<lparr> valid = True, score_res = Some 35, message = None \<rparr>"
    by simp
  have b: "board (sampleMidgame\<lparr> players := [(newPlayer 0)\<lparr> score := 35, rack := sampleRack \<rparr>,
                                       (newPlayer 1)\<lparr> rack := sampleRack \<rparr>],
                           currentPlayerIndex := Idx 1 \<rparr>) = board sampleMidgame"
    using submitWord_accepted_effect [OF h v] by blast
  show ?thesis
    using h v b by (intro conjI)
qed

section \<open>Exchanging tiles\<close>

text \<open>
  C1 at the input \<^verbatim>\<open>initializeGame(); exchangeTiles()\<close>, for any shuffle: the new game
  holds 100 tiles (86 in the bag, 7 on each rack, none on the board); after the exchange the
  bag, the racks and the board hold 93 tiles. The seven tiles of the discarded rack are in
  none of them.
\<close>

theorem exchangeTiles_after_init_total:
  "tileTotal (initializeGame rnd newGame) = 100
   \<and> map_sum id tileTotal (exchangeTiles (initializeGame rnd newGame)) = Inr 93"
proof -
  have i: "(0::nat) < length (players (initializeGame rnd newGame))"
    by (simp add: init_players)
  have before: "tileTotal (initializeGame rnd newGame) = 100"
    by (simp add: tileTotal_def tilesInRacks_def init_players init_bag init_board
        tilesOnBoard_createBoard length_createTileBag)
  have after: "map_sum id tileTotal (exchangeTiles (initializeGame rnd newGame)) = Inr 93"
    unfolding exchangeTiles_eq [OF init_index i]
    by (simp add: tileTotal_def tilesInRacks_def init_players init_bag init_board
        tilesOnBoard_createBoard length_createTileBag)
  show ?thesis
    using before after by (rule conjI)
qed

lemma tileCounts_init: "tileCounts (initializeGame rnd newGame) = (86, [7, 7], Idx 0)"
  by (simp add: tileCounts_def init_bag init_players init_index length_createTileBag)

lemma tileCounts_exchange:
  assumes "tileCounts g = (b, rs, Idx i)" and "i < length rs"
  shows "map_sum id tileCounts (exchangeTiles g)
         = Inr (b - min 7 b, rs[i := min 7 b], Idx ((i + 1) mod length rs))"
proof -
  have b: "length (tileBag g) = b" and rs: "map (\<lambda>p. length (rack p)) (players g) = rs"
    and i: "currentPlayerIndex g = Idx i"
    using assms(1) by (simp_all add: tileCounts_def)
  have l: "i < length (players g)"
    using assms(2) rs by auto
  show ?thesis
    unfolding exchangeTiles_eq [OF i l]
    using b rs by (auto simp add: tileCounts_def map_update)
qed

lemma tileCounts_exchangeTimes:
  "k \<le> 12 \<Longrightarrow>
   map_sum id tileCounts (exchangeTimes k (initializeGame rnd newGame))
   = Inr (86 - 7 * k, [7, 7], Idx (k mod 2))"
proof (induction k)
  case 0
  show ?case by (simp add: tileCounts_init)
next
  case (Suc k)
  have "k \<le> 12"
    using Suc.prems by simp
  note ih = Suc.IH [OF this]
  then obtain g where g: "exchangeTimes k (initializeGame rnd newGame) = Inr g"
    and c: "tileCounts g = (86 - 7 * k, [7, 7], Idx (k mod 2))"
    by (cases "exchangeTimes k (initializeGame rnd newGame)") auto
  have i: "k mod 2 < length [7, 7 :: nat]"
    by simp
  have st: "map_sum id tileCounts (exchangeTiles g)
            = Inr (86 - 7 * k - min 7 (86 - 7 * k), [7, 7][k mod 2 := min 7 (86 - 7 * k)],
                   Idx ((k mod 2 + 1) mod length [7, 7 :: nat]))"
    by (rule tileCounts_exchange [OF c i])
  have m: "min 7 (86 - 7 * k) = 7"
    using Suc.prems by simp
  have e1: "86 - 7 * k - min 7 (86 - 7 * k) = 86 - 7 * Suc k"
    using Suc.prems by simp
  have "k mod 2 = 0 \<or> k mod 2 = 1"
    by arith
  then have e2: "[7, 7 :: nat][k mod 2 := min 7 (86 - 7 * k)] = [7, 7]"
    unfolding m by auto
  have e3: "(k mod 2 + 1) mod length [7, 7 :: nat] = Suc k mod 2"
    by (simp add: mod_Suc)
  have sk: "exchangeTimes (Suc k) (initializeGame rnd newGame) = exchangeTiles g"
    using g by simp
  show ?case
    by (simp only: sk st e1 e2 e3)
qed

text \<open>
  C4 at the input \<^verbatim>\<open>initializeGame()\<close> followed by twelve \<^verbatim>\<open>exchangeTiles()\<close> calls,
  for any shuffle: the bag then holds 2 tiles, each rack 7, and it is the first player's
  turn. The thirteenth call completes, and the bag and the rack of the player who
  exchanged, which held 9 tiles together, hold 2 afterwards (the two tiles that were in the
  bag).
\<close>

theorem exchangeTiles_small_bag:
  "map_sum id tileCounts (exchangeTimes 12 (initializeGame rnd newGame)) = Inr (2, [7, 7], Idx 0)
   \<and> map_sum id tileCounts (exchangeTimes 13 (initializeGame rnd newGame)) = Inr (0, [2, 7], Idx 1)"
proof -
  have a: "map_sum id tileCounts (exchangeTimes 12 (initializeGame rnd newGame))
           = Inr (2, [7, 7], Idx 0)"
    using tileCounts_exchangeTimes [of 12 rnd] by simp
  then obtain g where g: "exchangeTimes 12 (initializeGame rnd newGame) = Inr g"
    and c: "tileCounts g = (2, [7, 7], Idx 0)"
    by (cases "exchangeTimes 12 (initializeGame rnd newGame)") auto
  have i: "0 < length [7, 7 :: nat]"
    by simp
  have s: "exchangeTimes 13 (initializeGame rnd newGame) = exchangeTiles g"
    using g by (simp add: numeral_eq_Suc)
  have b: "map_sum id tileCounts (exchangeTimes 13 (initializeGame rnd newGame))
           = Inr (0, [2, 7], Idx 1)"
    unfolding s using tileCounts_exchange [OF c i] by simp
  show ?thesis
    using a b by (rule conjI)
qed

section \<open>The multiplier map\<close>

lemma createSquareMultipliers_counts:
  "length (filter (\<lambda>(k, m). mtype m = ''tripleWord'') createSquareMultipliers) = 8
   \<and> length (filter (\<lambda>(k, m). mtype m = ''doubleWord'') createSquareMultipliers) = 16
   \<and> length (filter (\<lambda>(k, m). mtype m = ''tripleLetter'') createSquareMultipliers) = 12
   \<and> length (filter (\<lambda>(k, m). mtype m = ''doubleLetter'') createSquareMultipliers) = 24
   \<and> length createSquareMultipliers = 60
   \<and> distinct (map fst createSquareMultipliers)"
  by code_simp

lemma createSquareMultipliers_coordinates:
  "map (\<lambda>pos. map_of createSquareMultipliers (squareKey pos)) tripleWordSquares
     = replicate 8 (Some \<lparr> mtype = ''tripleWord'', applied = False \<rparr>)
   \<and> map (\<lambda>pos. map_of createSquareMultipliers (squareKey pos)) doubleWordSquares
     = replicate 16 (Some \<lparr> mtype = ''doubleWord'', applied = False \<rparr>)
   \<and> map (\<lambda>pos. map_of createSquareMultipliers (squareKey pos)) tripleLetterSquares
     = replicate 12 (Some \<lparr> mtype = ''tripleLetter'', applied = False \<rparr>)
   \<and> map (\<lambda>pos. map_of createSquareMultipliers (squareKey pos)) doubleLetterSquares
     = replicate 24 (Some \<lparr> mtype = ''doubleLetter'', applied = False \<rparr>)"
  by code_simp

lemma createSquareMultipliers_center:
  "map_of createSquareMultipliers (squareKey (7, 7)) = None"
  by code_simp

text \<open>
  The claim C5 as stated fails at the center: the key of \<open>(7, 7)\<close> is \<^verbatim>\<open>"7,7"\<close>, and the
  map built by \<^verbatim>\<open>createSquareMultipliers()\<close> has no entry for it, so the center is not a
  double-word square.
\<close>

theorem center_has_no_multiplier:
  "squareKey (7, 7) = ''7,7'' \<and> map_of createSquareMultipliers ''7,7'' = None"
  by code_simp

text \<open>
  C5, as the code has it. In every reachable state the multiplier map is the one built at
  game start: 60 distinct keys, of which 8 are triple-word, 16 double-word, 12 triple-letter
  and 24 double-letter squares, at the coordinates of the four tables, none of them applied;
  the center \<open>(7, 7)\<close> has no entry.
\<close>

theorem squareMultipliers_fixed:
  assumes "reachable g"
  shows "squareMultipliers g = createSquareMultipliers
       \<and> length (filter (\<lambda>(k, m). mtype m = ''tripleWord'') (squareMultipliers g)) = 8
       \<and> length (filter (\<lambda>(k, m). mtype m = ''doubleWord'') (squareMultipliers g)) = 16
       \<and> length (filter (\<lambda>(k, m). mtype m = ''tripleLetter'') (squareMultipliers g)) = 12
       \<and> length (filter (\<lambda>(k, m). mtype m = ''doubleLetter'') (squareMultipliers g)) = 24
       \<and> length (squareMultipliers g) = 60
       \<and> distinct (map fst (squareMultipliers g))
       \<and> map (\<lambda>pos. map_of (squareMultipliers g) (squareKey pos)) tripleWordSquares
           = replicate 8 (Some \<lparr> mtype = ''tripleWord'', applied = False \<rparr>)
       \<and> map (\<lambda>pos. map_of (squareMultipliers g) (squareKey pos)) doubleWordSquares
           = replicate 16 (Some \<lparr> mtype = ''doubleWord'', applied = False \<rparr>)
       \<and> map (\<lambda>pos. map_of (squareMultipliers g) (squareKey pos)) tripleLetterSquares
           = replicate 12 (Some \<lparr> mtype = ''tripleLetter'', applied = False \<rparr>)
       \<and> map (\<lambda>pos. map_of (squareMultipliers g) (squareKey pos)) doubleLetterSquares
           = replicate 24 (Some \<lparr> mtype = ''doubleLetter'', applied = False \<rparr>)
       \<and> map_of (squareMultipliers g) (squareKey (7, 7)) = None"
  unfolding reachable_multipliers [OF assms]
  using createSquareMultipliers_counts createSquareMultipliers_coordinates
    createSquareMultipliers_center
  by (intro conjI) simp_all

theorem squareMultipliers_fixed_witness:
  "reachable (passTurn (passTurn (initializeGame (\<lambda>i. 0) newGame)))
   \<and> squareMultipliers (passTurn (passTurn (initializeGame (\<lambda>i. 0) newGame)))
       = createSquareMultipliers"
proof -
  have h: "reachable (passTurn (passTurn (initializeGame (\<lambda>i. 0) newGame)))"
    by (intro reachable.pass reachable.init unitRandom_zero)
  show ?thesis
    using h squareMultipliers_fixed [OF h, THEN conjunct1] by (rule conjI)
qed

section \<open>The tile bag\<close>

lemma randomIndex_le: "0 \<le> r \<Longrightarrow> r < 1 \<Longrightarrow> randomIndex r i \<le> i"
proof -
  assume r: "0 \<le> r" "r < 1"
  have "r * real (i + 1) < real (i + 1)"
    using r by simp
  then have "\<lfloor>r * real (i + 1)\<rfloor> < int (i + 1)"
    by (simp add: floor_less_iff)
  then show ?thesis
    by (simp add: randomIndex_def)
qed

lemma mset_swap_in_range:
  "i < length xs \<Longrightarrow> j < length xs \<Longrightarrow> mset (swap xs i j) = mset xs"
  unfolding swap_def by (rule mset_swap)

lemma mset_shuffleFrom:
  "unitRandom rnd \<Longrightarrow> n < length xs \<Longrightarrow> mset (shuffleFrom rnd n xs) = mset xs"
proof (induction n arbitrary: xs)
  case 0
  show ?case by simp
next
  case (Suc n)
  have j: "randomIndex (rnd (Suc n)) (Suc n) \<le> Suc n"
    using Suc.prems(1) by (simp add: unitRandom_def randomIndex_le)
  have "mset (swap xs (Suc n) (randomIndex (rnd (Suc n)) (Suc n))) = mset xs"
    using j Suc.prems(2) by (intro mset_swap_in_range) auto
  then show ?case
    using Suc.IH [OF Suc.prems(1), of "swap xs (Suc n) (randomIndex (rnd (Suc n)) (Suc n))"]
      Suc.prems(2)
    by (simp add: length_swap)
qed

lemma mset_createTileBag: "unitRandom rnd \<Longrightarrow> mset (createTileBag rnd) = mset unshuffledBag"
  by (simp add: createTileBag_def shuffleArray_def mset_shuffleFrom length_unshuffledBag)

lemma filter_length_mset: "mset xs = mset ys \<Longrightarrow> length (filter P xs) = length (filter P ys)"
  by (metis mset_filter size_mset)

lemma unshuffled_counts:
  "map (\<lambda>l. length (filter (\<lambda>t. letter t = l) unshuffledBag))
     (map (\<lambda>c. [c]) '' ABCDEFGHIJKLMNOPQRSTUVWXYZ'')
   = [2, 9, 2, 2, 4, 12, 2, 3, 2, 9, 1, 1, 4, 2, 6, 8, 2, 1, 6, 4, 6, 4, 2, 2, 1, 2, 1]"
  by code_simp

lemma unshuffled_blanks: "length (filter isBlank unshuffledBag) = 2"
  by code_simp

lemma unshuffled_tiles:
  "\<forall>t \<in> set unshuffledBag.
     isBlank t = (letter t = '' '') \<and> (isBlank t \<longrightarrow> points t = 0)
     \<and> map_of (letterValues newGame) (letter t) = Some (points t)"
  by code_simp

text \<open>
  C7. Whatever values in \<open>[0, 1)\<close> the random source returns during the shuffle, the bag
  created at game start holds 100 tiles: 2 blanks and, for the letters A to Z, the counts
  9 2 2 4 12 2 3 2 9 1 1 4 2 6 8 2 1 6 4 6 4 2 2 1 2 1. A tile is blank exactly when its
  letter is the space; every blank has 0 points, and every tile has the points that
  \<^verbatim>\<open>letterValues\<close> gives for its letter.
\<close>

theorem createTileBag_distribution:
  assumes "unitRandom rnd"
  shows "length (createTileBag rnd) = 100
       \<and> map (\<lambda>l. length (filter (\<lambda>t. letter t = l) (createTileBag rnd)))
           (map (\<lambda>c. [c]) '' ABCDEFGHIJKLMNOPQRSTUVWXYZ'')
         = [2, 9, 2, 2, 4, 12, 2, 3, 2, 9, 1, 1, 4, 2, 6, 8, 2, 1, 6, 4, 6, 4, 2, 2, 1, 2, 1]
       \<and> length (filter isBlank (createTileBag rnd)) = 2
       \<and> (\<forall>t \<in> set (createTileBag rnd).
             isBlank t = (letter t = '' '') \<and> (isBlank t \<longrightarrow> points t = 0)
             \<and> map_of (letterValues newGame) (letter t) = Some (points t))"
proof -
  have m: "mset (createTileBag rnd) = mset unshuffledBag"
    using assms by (rule mset_createTileBag)
  have c: "\<And>P. length (filter P (createTileBag rnd)) = length (filter P unshuffledBag)"
    using m by (rule filter_length_mset)
  have s: "set (createTileBag rnd) = set unshuffledBag"
    using m by (rule mset_eq_setD)
  show ?thesis
    unfolding c s using length_createTileBag unshuffled_counts unshuffled_blanks unshuffled_tiles
    by (intro conjI) simp_all
qed

theorem createTileBag_distribution_witness:
  "unitRandom (\<lambda>i. 1 / 2)
   \<and> length (createTileBag (\<lambda>i. 1 / 2)) = 100
   \<and> length (filter (\<lambda>t. letter t = ''E'') (createTileBag (\<lambda>i. 1 / 2))) = 12
   \<and> length (filter (\<lambda>t. letter t = ''Q'') (createTileBag (\<lambda>i. 1 / 2))) = 1
   \<and> length (filter isBlank (createTileBag (\<lambda>i. 1 / 2))) = 2"
proof -
  have h: "unitRandom (\<lambda>i. 1 / 2)"
    by (simp add: unitRandom_def)
  show ?thesis
    using h createTileBag_distribution [OF h] by simp
qed

section \<open>The shuffle is a uniform Fisher--Yates shuffle\<close>







lemma length_fisherYatesFrom: "length (fisherYatesFrom c m xs) = length xs"
  by (induction m arbitrary: xs) (simp_all add: length_swap)

















end
